theory Spec2Isabelle
  imports Main "HOL-Library.Sublist"
begin

section \<open>Python values used by \<open>nmc_met_map\<close>\<close>

text \<open>
  A Python \<open>str\<close> is modelled as a HOL \<open>string\<close>. The model names, the table keys and the
  data directories of the package are ASCII text, and the library methods below are modelled
  on ASCII: \<open>str.isspace\<close> accepts the code points 9-13 and 28-32, \<open>str.upper\<close> maps
  \<open>a\<close>-\<open>z\<close> to \<open>A\<close>-\<open>Z\<close>; every other character is neither white space nor changed by
  \<open>upper\<close>. Python's \<open>int\<close> is HOL's \<open>int\<close> (the interpreter's optional limit on the
  number of digits of a decimal conversion is not modelled).
\<close>

datatype error = KeyError string | IndexError | ValueError string

definition isspace :: "char \<Rightarrow> bool" where
  "isspace c = (let n = (of_char c :: nat) in (9 \<le> n \<and> n \<le> 13) \<or> (28 \<le> n \<and> n \<le> 32))"

definition islower :: "char \<Rightarrow> bool" where
  "islower c = (let n = (of_char c :: nat) in 97 \<le> n \<and> n \<le> 122)"

definition upper_char :: "char \<Rightarrow> char" where
  "upper_char c = (if islower c then char_of ((of_char c :: nat) - 32) else c)"

definition upper :: "string \<Rightarrow> string" where
  "upper s = map upper_char s"

text \<open>\<open>str.strip()\<close> without argument: drop the white space at both ends.\<close>

definition lstrip :: "string \<Rightarrow> string" where
  "lstrip s = dropWhile isspace s"

definition rstrip :: "string \<Rightarrow> string" where
  "rstrip s = rev (dropWhile isspace (rev s))"

definition strip :: "string \<Rightarrow> string" where
  "strip s = rstrip (lstrip s)"

text \<open>
  Subscription of a \<open>dict\<close> (written as the list of its \<open>key: value\<close> pairs, in the order of
  the literal; no literal of the package repeats a key) and of a \<open>list\<close> at a position that
  is not negative: a missing key raises \<open>KeyError\<close>, a position past the end raises
  \<open>IndexError\<close>.
\<close>

definition dict_getitem :: "(string \<times> 'v) list \<Rightarrow> string \<Rightarrow> error + 'v" where
  "dict_getitem d k = (case map_of d k of None \<Rightarrow> Inl (KeyError k) | Some v \<Rightarrow> Inr v)"

definition list_getitem :: "'a list \<Rightarrow> nat \<Rightarrow> error + 'a" where
  "list_getitem xs i = (if i < length xs then Inr (xs ! i) else Inl IndexError)"

definition keys :: "(string \<times> 'v) list \<Rightarrow> string list" where
  "keys d = map fst d"

subsection \<open>Decimal formatting\<close>

definition digit_char :: "nat \<Rightarrow> char" where
  "digit_char n = ''0123456789'' ! (n mod 10)"

function decimal :: "nat \<Rightarrow> string" where
  "decimal n = (if n < 10 then [digit_char n] else decimal (n div 10) @ [digit_char (n mod 10)])"
  by pat_completeness auto
termination
  by (relation "measure id") auto

declare decimal.simps [simp del]

definition zero_pad :: "nat \<Rightarrow> string \<Rightarrow> string" where
  "zero_pad w s = replicate (w - length s) CHR ''0'' @ s"

text \<open>
  The replacement field \<open>{:03d}\<close>: decimal digits, fill character \<open>0\<close>, minimum width 3.
  The zero fill goes between the sign and the digits, and the sign counts in the width.
\<close>

definition format_03d :: "int \<Rightarrow> string" where
  "format_03d n =
     (let sign = (if n < 0 then ''-'' else '''');
          ds = decimal (nat \<bar>n\<bar>)
      in sign @ replicate (3 - (length sign + length ds)) CHR ''0'' @ ds)"

subsection \<open>\<open>datetime\<close> and \<open>strftime\<close>\<close>

record datetime =
  year :: nat
  month :: nat
  day :: nat
  hour :: nat
  minute :: nat
  second :: nat
  microsecond :: nat

definition is_leap :: "nat \<Rightarrow> bool" where
  "is_leap y = (y mod 4 = 0 \<and> (y mod 100 \<noteq> 0 \<or> y mod 400 = 0))"

definition days_in_month :: "nat \<Rightarrow> nat \<Rightarrow> nat" where
  "days_in_month y m =
     (if m = 2 then (if is_leap y then 29 else 28)
      else if m \<in> {4, 6, 9, 11} then 30 else 31)"

text \<open>The range checks of the \<open>datetime\<close> constructor: every \<open>datetime\<close> object passes them.\<close>

definition valid_datetime :: "datetime \<Rightarrow> bool" where
  "valid_datetime d =
     (1 \<le> year d \<and> year d \<le> 9999 \<and> 1 \<le> month d \<and> month d \<le> 12 \<and>
      1 \<le> day d \<and> day d \<le> days_in_month (year d) (month d) \<and>
      hour d < 24 \<and> minute d < 60 \<and> second d < 60 \<and> microsecond d < 1000000)"

text \<open>
  \<open>strftime\<close> reads the process's time locale for the names of months and of the halves of
  the day. The locale is ambient state of the interpreter; it is passed explicitly here.
\<close>

record lc_time =
  abmon :: "nat \<Rightarrow> string"
  am_pm :: "bool \<Rightarrow> string"

definition strftime_directive :: "lc_time \<Rightarrow> datetime \<Rightarrow> char \<Rightarrow> string" where
  "strftime_directive L d c =
     (if c = CHR ''y'' then zero_pad 2 (decimal (year d mod 100))
      else if c = CHR ''m'' then zero_pad 2 (decimal (month d))
      else if c = CHR ''d'' then zero_pad 2 (decimal (day d))
      else if c = CHR ''H'' then zero_pad 2 (decimal (hour d))
      else if c = CHR ''b'' then abmon L (month d)
      else if c = CHR ''p'' then am_pm L (12 \<le> hour d)
      else if c = CHR ''%'' then ''%''
      else [CHR ''%'', c])"

fun strftime :: "lc_time \<Rightarrow> datetime \<Rightarrow> string \<Rightarrow> string" where
  "strftime L d (c # c' # fmt) =
     (if c = CHR ''%'' then strftime_directive L d c' @ strftime L d fmt
      else c # strftime L d (c' # fmt))"
| "strftime L d fmt = fmt"

section \<open>\<open>utility.model_filename\<close>\<close>

datatype initial_time = Str string | Datetime datetime

definition model_filename :: "lc_time \<Rightarrow> initial_time \<Rightarrow> int \<Rightarrow> string" where
  "model_filename L initial_time fhour =
     (case initial_time of
        Datetime d \<Rightarrow> strftime L d ''%y%m%d%H'' @ ''.'' @ format_03d fhour
      | Str s \<Rightarrow> strip s @ ''.'' @ format_03d fhour)"

section \<open>The data directories of the plotting functions\<close>

text \<open>
  Each plotting function opens with a \<open>dict\<close> literal \<open>data_dirs\<close> and the lookup
  \<open>data_dirs[model.strip().upper()]\<close>, whose \<open>KeyError\<close> is caught and replaced by a
  \<open>ValueError\<close>. The literals are copied from \<open>mesoscale.py\<close>, \<open>synoptic.py\<close> and \<open>qpf.py\<close>.
\<close>

definition cref_uv850_data_dirs :: "(string \<times> string list) list" where
  "cref_uv850_data_dirs =
     [(''SHANGHAI'', [''SHANGHAI_HR/COMPOSITE_REFLECTIVITY/ENTIRE_ATMOSPHERE'',
                      ''SHANGHAI_HR/UGRD/850'', ''SHANGHAI_HR/VGRD/850'']),
      (''BEIJING'', [''BEIJING_MR/COMPOSITE_REFLECTIVITY/ENTIRE_ATMOSPHERE'',
                     ''BEIJING_MR/UGRD/850'', ''BEIJING_MR/VGRD/850'']),
      (''GRAPES_MESO'', [''GRAPES_MESO_HR/RADAR_COMBINATION_REFLECTIVITY'',
                         ''GRAPES_MESO_HR/UGRD/850'', ''GRAPES_MESO_HR/VGRD/850'']),
      (''GRAPES_3KM'', [''GRAPES_3KM/RADAR_COMBINATION_REFLECTIVITY'',
                        ''GRAPES_3KM/UGRD/850'', ''GRAPES_3KM/VGRD/850''])]"

definition cref_uv850_compare_data_dirs :: "(string \<times> string list) list" where
  "cref_uv850_compare_data_dirs =
     [(''SHANGHAI'', [''SHANGHAI_HR/COMPOSITE_REFLECTIVITY/ENTIRE_ATMOSPHERE'',
                      ''SHANGHAI_HR/UGRD/850'', ''SHANGHAI_HR/VGRD/850'']),
      (''BEIJING'', [''BEIJING_MR/COMPOSITE_REFLECTIVITY/ENTIRE_ATMOSPHERE'',
                     ''BEIJING_MR/UGRD/850'', ''BEIJING_MR/VGRD/850'']),
      (''GRAPES_MESO'', [''GRAPES_MESO_HR/RADAR_COMBINATION_REFLECTIVITY'',
                         ''GRAPES_MESO_HR/UGRD/850'', ''GRAPES_MESO_HR/VGRD/850'']),
      (''GRAPES_3KM'', [''GRAPES_3KM/RADAR_COMBINATION_REFLECTIVITY'',
                        ''GRAPES_3KM/UGRD/850'', ''GRAPES_3KM/VGRD/850''])]"

definition gh500_uv850_mslp_data_dirs :: "(string \<times> string list) list" where
  "gh500_uv850_mslp_data_dirs =
     [(''ECMWF'', [''ECMWF_LR/HGT/500'', ''ECMWF_LR/UGRD/850'',
                   ''ECMWF_LR/VGRD/850'', ''ECMWF_LR/PRMSL'']),
      (''GRAPES'', [''GRAPES_GFS/HGT/500'', ''GRAPES_GFS/UGRD/850'',
                    ''GRAPES_GFS/VGRD/850'', ''GRAPES_GFS/PRMSL'']),
      (''NCEP'', [''NCEP_GFS/HGT/500'', ''NCEP_GFS/UGRD/850'',
                  ''NCEP_GFS/VGRD/850'', ''NCEP_GFS/PRMSL''])]"

definition qpf_24h_data_dirs :: "(string \<times> string list) list" where
  "qpf_24h_data_dirs = [(''ECMWF'', [''ECMWF_HR/RAIN24''])]"

text \<open>The \<open>try\<close>/\<open>except KeyError\<close> of the three functions.\<close>

definition cref_uv850_data_dir :: "string \<Rightarrow> error + string list" where
  "cref_uv850_data_dir model =
     (case dict_getitem cref_uv850_data_dirs (upper (strip model)) of
        Inl (KeyError k) \<Rightarrow>
          Inl (ValueError ''Unknown model, choose ShangHai, BeiJing, Grapes_meso of Grapes_3km.'')
      | r \<Rightarrow> r)"

definition gh500_uv850_mslp_data_dir :: "string \<Rightarrow> error + string list" where
  "gh500_uv850_mslp_data_dir model =
     (case dict_getitem gh500_uv850_mslp_data_dirs (upper (strip model)) of
        Inl (KeyError k) \<Rightarrow> Inl (ValueError ''Unknown model, choose ECMWF, GRAPES or NCEP.'')
      | r \<Rightarrow> r)"

definition qpf_24h_data_dir :: "string \<Rightarrow> error + string list" where
  "qpf_24h_data_dir model =
     (case dict_getitem qpf_24h_data_dirs (upper (strip model)) of
        Inl (KeyError k) \<Rightarrow> Inl (ValueError ''Unknown model, choose ECMWF, GRAPES or NCEP.'')
      | r \<Rightarrow> r)"

text \<open>
  The specification speaks of one resolver with an analysis type as its second argument: it
  stands for the three lookups above, one per plotting function.
\<close>

datatype analysis_type = Composite_reflectivity_and_wind | Precipitation_24h | Synoptic_500hpa

fun data_dirs :: "analysis_type \<Rightarrow> (string \<times> string list) list" where
  "data_dirs Composite_reflectivity_and_wind = cref_uv850_data_dirs"
| "data_dirs Precipitation_24h = qpf_24h_data_dirs"
| "data_dirs Synoptic_500hpa = gh500_uv850_mslp_data_dirs"

fun resolve_field_paths :: "string \<Rightarrow> analysis_type \<Rightarrow> error + string list" where
  "resolve_field_paths model Composite_reflectivity_and_wind = cref_uv850_data_dir model"
| "resolve_field_paths model Precipitation_24h = qpf_24h_data_dir model"
| "resolve_field_paths model Synoptic_500hpa = gh500_uv850_mslp_data_dir model"

text \<open>
  The positions at which each function subscripts its \<open>data_dir\<close>: \<open>cref_uv850\<close> and
  \<open>cref_uv850_compare\<close> read \<open>data_dir[0]\<close> and, with \<open>draw_wind\<close>, \<open>data_dir[1]\<close> and
  \<open>data_dir[2]\<close>; \<open>gh500_uv850_mslp\<close> reads \<open>data_dir[0]\<close> to \<open>data_dir[3]\<close>; \<open>qpf_24h\<close>
  reads \<open>data_dir[0]\<close>.
\<close>

fun indexed_positions :: "analysis_type \<Rightarrow> nat list" where
  "indexed_positions Composite_reflectivity_and_wind = [0, 1, 2]"
| "indexed_positions Precipitation_24h = [0]"
| "indexed_positions Synoptic_500hpa = [0, 1, 2, 3]"

section \<open>Notions of the specification\<close>

text \<open>Decimal digits and the number a digit string denotes.\<close>

definition isdigit :: "char \<Rightarrow> bool" where
  "isdigit c = (let n = (of_char c :: nat) in 48 \<le> n \<and> n \<le> 57)"

definition digit_value :: "char \<Rightarrow> nat" where
  "digit_value c = of_char c - 48"

definition digits_value :: "string \<Rightarrow> nat" where
  "digits_value s = foldl (\<lambda>a c. 10 * a + digit_value c) 0 s"

text \<open>
  The time token \<open>YYMMDDHH\<close>: two digits each for the year within its century, the month,
  the day and the hour.
\<close>

definition two_digits :: "nat \<Rightarrow> string" where
  "two_digits n = [digit_char (n div 10), digit_char (n mod 10)]"

definition yymmddhh :: "datetime \<Rightarrow> string" where
  "yymmddhh d =
     two_digits (year d mod 100) @ two_digits (month d) @ two_digits (day d) @ two_digits (hour d)"

text \<open>
  A file name ends with a dot followed by \<open>w\<close> digits that denote the forecast hour \<open>fh\<close>.
\<close>

definition ends_with_dot_digits :: "nat \<Rightarrow> string \<Rightarrow> int \<Rightarrow> bool" where
  "ends_with_dot_digits w s fh =
     (w < length s \<and> s ! (length s - Suc w) = CHR ''.'' \<and>
      list_all isdigit (drop (length s - w) s) \<and>
      int (digits_value (drop (length s - w) s)) = fh)"



text \<open>The first segment of a path, up to its first slash.\<close>

definition root_segment :: "string \<Rightarrow> string" where
  "root_segment p = takeWhile (\<lambda>c. c \<noteq> CHR ''/'') p"

text \<open>
  An entry \<open>(k, ps)\<close> of a table has a single root of its own: its paths all start with
  the first segment of the first one and a slash, that segment starts with \<open>k\<close>, and no path
  of an entry with another key has the same first segment.
\<close>

definition single_root :: "(string \<times> string list) list \<Rightarrow> string \<times> string list \<Rightarrow> bool" where
  "single_root tbl e =
     (case e of (k, ps) \<Rightarrow>
        ps \<noteq> [] \<and> prefix k (root_segment (hd ps)) \<and>
        list_all (prefix (root_segment (hd ps) @ ''/'')) ps \<and>
        list_all (\<lambda>(k', ps'). k' = k \<or>
          list_all (\<lambda>p'. root_segment p' \<noteq> root_segment (hd ps)) ps') tbl)"

text \<open>
  The model names an error message offers: the words that follow \<open>choose\<close>, without the
  conjunctions, in upper case as the lookup reads them.
\<close>

definition is_name_char :: "char \<Rightarrow> bool" where
  "is_name_char c =
     (let n = (of_char c :: nat)
      in (48 \<le> n \<and> n \<le> 57) \<or> (65 \<le> n \<and> n \<le> 90) \<or> n = 95 \<or> (97 \<le> n \<and> n \<le> 122))"

fun split_words :: "string \<Rightarrow> string \<Rightarrow> string list" where
  "split_words w [] = (if w = [] then [] else [w])"
| "split_words w (c # cs) =
     (if is_name_char c then split_words (w @ [c]) cs
      else (if w = [] then [] else [w]) @ split_words [] cs)"

definition named_models :: "error \<Rightarrow> string list" where
  "named_models e =
     (case e of
        ValueError msg \<Rightarrow>
          map upper (filter (\<lambda>w. w \<notin> {''or'', ''of''})
            (tl (dropWhile (\<lambda>w. w \<noteq> ''choose'') (split_words [] msg))))
      | _ \<Rightarrow> [])"

text \<open>Concrete inputs: the C locale and the initial time \<open>datetime(2018, 4, 20, 8)\<close>.\<close>

definition C_locale :: lc_time where
  "C_locale =
     \<lparr>abmon = (\<lambda>m. if 1 \<le> m \<and> m \<le> 12
                     then [''Jan'', ''Feb'', ''Mar'', ''Apr'', ''May'', ''Jun'',
                           ''Jul'', ''Aug'', ''Sep'', ''Oct'', ''Nov'', ''Dec''] ! (m - 1)
                     else []),
      am_pm = (\<lambda>pm. if pm then ''PM'' else ''AM'')\<rparr>"

definition datetime_2018_4_20_8 :: datetime where
  "datetime_2018_4_20_8 =
     \<lparr>year = 2018, month = 4, day = 20, hour = 8, minute = 0, second = 0, microsecond = 0\<rparr>"

section \<open>Decimal digits\<close>

lemma digit_char_cases:
  assumes "n < 10"
  shows "n \<in> set [0..<10]"
  using assms by simp

lemma digit_value_digit_char: "n < 10 \<Longrightarrow> digit_value (digit_char n) = n"
  using digit_char_cases [of n]
  by (auto simp: upt_rec [of _ "numeral k" for k] digit_value_def digit_char_def)

lemma isdigit_digit_char: "n < 10 \<Longrightarrow> isdigit (digit_char n)"
  using digit_char_cases [of n]
  by (auto simp: upt_rec [of _ "numeral k" for k] isdigit_def digit_char_def)

lemma isdigit_digit_char_mod: "isdigit (digit_char n)"
proof -
  have "digit_char n = digit_char (n mod 10)" by (simp add: digit_char_def)
  then show ?thesis using isdigit_digit_char [of "n mod 10"] by simp
qed

lemma decimal_not_Nil: "decimal n \<noteq> []"
  by (subst decimal.simps) simp

lemma decimal_digits: "list_all isdigit (decimal n)"
proof (induction n rule: decimal.induct)
  case (1 n)
  show ?case
  proof (cases "n < 10")
    case True
    then show ?thesis by (subst decimal.simps) (simp add: isdigit_digit_char)
  next
    case False
    with 1 show ?thesis by (subst decimal.simps) (simp add: isdigit_digit_char)
  qed
qed

lemma digits_value_snoc: "digits_value (s @ [c]) = 10 * digits_value s + digit_value c"
  by (simp add: digits_value_def)

lemma digits_value_decimal: "digits_value (decimal n) = n"
proof (induction n rule: decimal.induct)
  case (1 n)
  show ?case
  proof (cases "n < 10")
    case True
    then show ?thesis
      by (subst decimal.simps) (simp add: digits_value_def digit_value_digit_char)
  next
    case False
    with 1 show ?thesis
      by (subst decimal.simps) (simp add: digits_value_snoc digit_value_digit_char)
  qed
qed

lemma length_decimal_le: "0 < k \<Longrightarrow> n < 10 ^ k \<Longrightarrow> length (decimal n) \<le> k"
proof (induction n arbitrary: k rule: decimal.induct)
  case (1 n)
  show ?case
  proof (cases "n < 10")
    case True
    with 1(2) show ?thesis by (subst decimal.simps) simp
  next
    case False
    from 1(2) obtain j where kj: "k = Suc j" by (cases k) auto
    from False 1(3) kj have "0 < j" by (cases j) auto
    with kj have j: "k = Suc j" "0 < j" by simp_all
    with 1(3) have "n div 10 < 10 ^ j" by (simp add: less_mult_imp_div_less mult.commute)
    with 1(1) [OF False j(2)] have "length (decimal (n div 10)) \<le> j" .
    with False j show ?thesis by (subst decimal.simps) simp
  qed
qed

lemma length_decimal_gt: "10 ^ k \<le> n \<Longrightarrow> k < length (decimal n)"
proof (induction n arbitrary: k rule: decimal.induct)
  case (1 n)
  show ?case
  proof (cases "n < 10")
    case True
    have "k = 0"
    proof (cases k)
      case (Suc j)
      have "(1::nat) \<le> 10 ^ j" by simp
      then have "(10::nat) \<le> 10 * 10 ^ j" by simp
      with True 1(2) Suc show ?thesis by simp
    qed simp
    then show ?thesis using decimal_not_Nil [of n] by simp
  next
    case False
    show ?thesis
    proof (cases k)
      case 0
      then show ?thesis using decimal_not_Nil [of n] by simp
    next
      case (Suc j)
      with 1(2) have "10 ^ j \<le> n div 10" by simp
      with 1(1) [OF False] have "j < length (decimal (n div 10))" .
      with False Suc show ?thesis by (subst decimal.simps) simp
    qed
  qed
qed

lemma length_decimal_eq: "10 ^ k \<le> n \<Longrightarrow> n < 10 ^ Suc k \<Longrightarrow> length (decimal n) = Suc k"
  using length_decimal_gt [of k n] length_decimal_le [of "Suc k" n] by simp

lemma zero_pad_digits: "list_all isdigit s \<Longrightarrow> list_all isdigit (zero_pad w s)"
  by (auto simp: zero_pad_def isdigit_def list_all_iff)

lemma digits_value_zero_pad: "digits_value (zero_pad w s) = digits_value s"
proof -
  have "foldl (\<lambda>a c. 10 * a + digit_value c) 0 (replicate k CHR ''0'') = 0" for k
    by (induction k) (simp_all add: digit_value_def)
  then show ?thesis by (simp add: zero_pad_def digits_value_def)
qed

lemma length_zero_pad: "length (zero_pad w s) = max w (length s)"
  by (simp add: zero_pad_def)

lemma two_digits_decimal: "n < 100 \<Longrightarrow> zero_pad 2 (decimal n) = two_digits n"
proof (cases "n < 10")
  case True
  then have "decimal n = [digit_char n]" by (subst decimal.simps) simp
  with True show ?thesis by (simp add: zero_pad_def two_digits_def digit_char_def)
next
  case False
  assume "n < 100"
  then have d: "n div 10 < 10" by simp
  then have "decimal (n div 10) = [digit_char (n div 10)]" by (subst decimal.simps) simp
  with False have "decimal n = [digit_char (n div 10), digit_char (n mod 10)]"
    by (subst decimal.simps) simp
  then show ?thesis by (simp add: zero_pad_def two_digits_def)
qed

lemma digits_value_two_digits: "n < 100 \<Longrightarrow> digits_value (two_digits n) = n"
proof -
  assume "n < 100"
  then have "n div 10 < 10" by simp
  then show ?thesis
    by (simp add: two_digits_def digits_value_def digit_value_digit_char)
qed

lemma two_digits_isdigit: "list_all isdigit (two_digits n)"
  by (simp add: two_digits_def isdigit_digit_char_mod)

lemma format_03d_nonneg: "0 \<le> fh \<Longrightarrow> format_03d fh = zero_pad 3 (decimal (nat fh))"
  by (simp add: format_03d_def zero_pad_def Let_def)



section \<open>Trimming and letter case\<close>

lemmas str_defs = upper_def upper_char_def islower_def strip_def lstrip_def rstrip_def isspace_def
  char_of_def bit_Suc_0_iff















section \<open>File names\<close>

lemma strftime_yymmddhh:
  assumes "valid_datetime d"
  shows "strftime L d ''%y%m%d%H'' = yymmddhh d"
proof -
  from assms have "month d < 100" "day d < 100" "hour d < 100"
    by (auto simp: valid_datetime_def days_in_month_def split: if_splits)
  moreover have "year d mod 100 < 100" by simp
  ultimately show ?thesis
    by (simp add: strftime_directive_def yymmddhh_def two_digits_decimal)
qed

lemma model_filename_shape:
  "\<exists>tok. model_filename L t fh = tok @ ''.'' @ format_03d fh"
  by (cases t) (simp_all add: model_filename_def)

lemma ends_with_dot_digits_append:
  "ends_with_dot_digits (length sfx) (tok @ ''.'' @ sfx) fh =
     (list_all isdigit sfx \<and> int (digits_value sfx) = fh)"
  by (simp add: ends_with_dot_digits_def nth_append)

lemma model_filename_example_datetime:
  "model_filename L (Datetime datetime_2018_4_20_8) 3 = ''18042008.003''"
  by code_simp


text \<open>
  Claim C4. For a \<open>datetime\<close> and a forecast hour that is not negative, the file name is
  the time as \<open>YYMMDDHH\<close>, a dot and the forecast hour padded with zeros to three digits.
  The token has eight digits; read two by two they are the year within its century, the
  month, the day and the hour. \<open>model_filename(datetime(2018, 4, 20, 8), 3)\<close> is
  \<open>18042008.003\<close>.
\<close>

theorem model_filename_datetime:
  "(valid_datetime d \<and> 0 \<le> fh \<longrightarrow>
      model_filename L (Datetime d) fh = yymmddhh d @ ''.'' @ zero_pad 3 (decimal (nat fh)) \<and>
      length (yymmddhh d) = 8 \<and> list_all isdigit (yymmddhh d) \<and>
      digits_value (take 2 (yymmddhh d)) = year d mod 100 \<and>
      digits_value (take 2 (drop 2 (yymmddhh d))) = month d \<and>
      digits_value (take 2 (drop 4 (yymmddhh d))) = day d \<and>
      digits_value (drop 6 (yymmddhh d)) = hour d) \<and>
   model_filename L (Datetime datetime_2018_4_20_8) 3 = ''18042008.003''"
proof (intro conjI impI)
  assume h: "valid_datetime d \<and> 0 \<le> fh"
  then have v: "valid_datetime d" and f: "0 \<le> fh" by simp_all
  have tok: "strftime L d ''%y%m%d%H'' = yymmddhh d" by (rule strftime_yymmddhh [OF v])
  show "model_filename L (Datetime d) fh = yymmddhh d @ ''.'' @ zero_pad 3 (decimal (nat fh))"
    by (simp only: model_filename_def initial_time.case tok format_03d_nonneg [OF f])
  show "length (yymmddhh d) = 8" by (simp add: yymmddhh_def two_digits_def)
  show "list_all isdigit (yymmddhh d)" by (simp add: yymmddhh_def two_digits_isdigit)
  from h have lt: "month d < 100" "day d < 100" "hour d < 100"
    by (auto simp: valid_datetime_def days_in_month_def split: if_splits)
  have l2: "length (two_digits n) = 2" for n by (simp add: two_digits_def)
  show "digits_value (take 2 (yymmddhh d)) = year d mod 100"
    by (simp add: yymmddhh_def l2 digits_value_two_digits)
  show "digits_value (take 2 (drop 2 (yymmddhh d))) = month d"
    using lt by (simp add: yymmddhh_def l2 digits_value_two_digits)
  show "digits_value (take 2 (drop 4 (yymmddhh d))) = day d"
    using lt by (simp add: yymmddhh_def l2 digits_value_two_digits)
  show "digits_value (drop 6 (yymmddhh d)) = hour d"
    using lt by (simp add: yymmddhh_def l2 digits_value_two_digits)
next
  show "model_filename L (Datetime datetime_2018_4_20_8) 3 = ''18042008.003''"
    by (rule model_filename_example_datetime)
qed

theorem model_filename_datetime_witness:
  "valid_datetime datetime_2018_4_20_8 \<and> (0::int) \<le> 3 \<and>
   model_filename C_locale (Datetime datetime_2018_4_20_8) 3 =
     yymmddhh datetime_2018_4_20_8 @ ''.'' @ zero_pad 3 (decimal 3) \<and>
   yymmddhh datetime_2018_4_20_8 = ''18042008'' \<and>
   digits_value (take 2 (drop 2 (yymmddhh datetime_2018_4_20_8))) = 4"
proof -
  have v: "valid_datetime datetime_2018_4_20_8"
    by (simp add: valid_datetime_def datetime_2018_4_20_8_def days_in_month_def)
  have y: "yymmddhh datetime_2018_4_20_8 = ''18042008''"
    by (simp add: yymmddhh_def datetime_2018_4_20_8_def two_digits_def digit_char_def)
  have m: "month datetime_2018_4_20_8 = 4" by (simp add: datetime_2018_4_20_8_def)
  from v model_filename_datetime [of datetime_2018_4_20_8 3 C_locale]
  have "model_filename C_locale (Datetime datetime_2018_4_20_8) 3 =
      yymmddhh datetime_2018_4_20_8 @ ''.'' @ zero_pad 3 (decimal 3) \<and>
    digits_value (take 2 (drop 2 (yymmddhh datetime_2018_4_20_8))) = 4"
    by (simp add: m)
  with v y show ?thesis by simp
qed



text \<open>
  Claim C6, amended. For a forecast hour from 0 to 999 the file name ends with a dot and the
  forecast hour padded with zeros to exactly three digits. For a forecast hour of \<open>k + 1\<close>
  digits, \<open>k \<ge> 3\<close>, it ends with a dot and exactly these \<open>k + 1\<close> digits: three is the
  least width of the field, not its exact width.
\<close>

theorem model_filename_suffix:
  "0 \<le> fh \<Longrightarrow>
     (fh < 1000 \<longrightarrow> ends_with_dot_digits 3 (model_filename L t fh) fh) \<and>
     (\<forall>k. 3 \<le> k \<and> 10 ^ k \<le> fh \<and> fh < 10 ^ Suc k \<longrightarrow>
        ends_with_dot_digits (Suc k) (model_filename L t fh) fh)"
proof -
  assume f: "0 \<le> fh"
  obtain tok where tok: "model_filename L t fh = tok @ ''.'' @ zero_pad 3 (decimal (nat fh))"
    using model_filename_shape [of L t fh] format_03d_nonneg [OF f] by auto
  have ok: "list_all isdigit (zero_pad 3 (decimal (nat fh)))"
    "int (digits_value (zero_pad 3 (decimal (nat fh)))) = fh"
    using f by (simp_all add: zero_pad_digits decimal_digits digits_value_zero_pad
        digits_value_decimal)
  have len: "ends_with_dot_digits w (model_filename L t fh) fh"
    if "length (zero_pad 3 (decimal (nat fh))) = w" for w
    using ends_with_dot_digits_append [of "zero_pad 3 (decimal (nat fh))" tok fh] ok that tok
    by simp
  show ?thesis
  proof (intro conjI impI allI)
    assume "fh < 1000"
    with f have "nat fh < 10 ^ 3" by simp
    then have "length (decimal (nat fh)) \<le> 3" by (intro length_decimal_le) simp_all
    then show "ends_with_dot_digits 3 (model_filename L t fh) fh"
      by (intro len) (simp add: length_zero_pad)
  next
    fix k
    assume k: "3 \<le> k \<and> 10 ^ k \<le> fh \<and> fh < 10 ^ Suc k"
    with f have "10 ^ k \<le> nat fh" "nat fh < 10 ^ Suc k"
      by (simp_all add: le_nat_iff nat_less_iff)
    then have "length (decimal (nat fh)) = Suc k" by (rule length_decimal_eq)
    with k show "ends_with_dot_digits (Suc k) (model_filename L t fh) fh"
      by (intro len) (simp add: length_zero_pad)
  qed
qed

theorem model_filename_suffix_witness:
  "(0::int) \<le> 3 \<and> (0::int) \<le> 1000 \<and>
   ends_with_dot_digits 3 (model_filename C_locale (Datetime datetime_2018_4_20_8) 3) 3 \<and>
   ends_with_dot_digits 4 (model_filename C_locale (Str ''18042008'') 1000) 1000"
  using model_filename_suffix [of 3 C_locale "Datetime datetime_2018_4_20_8"]
    model_filename_suffix [of 1000 C_locale "Str ''18042008''"]
  by (auto dest: spec [of _ 3])

text \<open>
  As stated for every forecast hour, claim C6 fails at 1000: the file name is
  \<open>18042008.1000\<close>, which does not end with a dot and three digits.
\<close>

theorem model_filename_suffix_counterexample:
  "\<not> ends_with_dot_digits 3 (model_filename C_locale (Str ''18042008'') 1000) 1000"
  by code_simp





section \<open>Resolving the data directories\<close>

lemmas table_defs = cref_uv850_data_dirs_def gh500_uv850_mslp_data_dirs_def qpf_24h_data_dirs_def

lemmas lookup_defs = cref_uv850_data_dir_def gh500_uv850_mslp_data_dir_def qpf_24h_data_dir_def


lemma resolve_Some:
  "map_of (data_dirs a) (upper (strip m)) = Some ps \<Longrightarrow> resolve_field_paths m a = Inr ps"
  by (cases a) (simp_all add: lookup_defs dict_getitem_def)

lemma resolve_None:
  "map_of (data_dirs a) (upper (strip m)) = None \<Longrightarrow>
   \<exists>msg. resolve_field_paths m a = Inl (ValueError msg)"
  by (cases a) (simp_all add: lookup_defs dict_getitem_def)

lemma resolve_Inr_D:
  assumes "resolve_field_paths m a = Inr ps"
  shows "map_of (data_dirs a) (upper (strip m)) = Some ps"
proof (cases "map_of (data_dirs a) (upper (strip m))")
  case None
  from resolve_None [OF this] assms show ?thesis by auto
next
  case (Some qs)
  from resolve_Some [OF this] assms show ?thesis using Some by simp
qed


lemma resolve_in_table:
  "resolve_field_paths m a = Inr ps \<Longrightarrow> (upper (strip m), ps) \<in> set (data_dirs a)"
  by (rule map_of_SomeD) (rule resolve_Inr_D)





text \<open>
  The messages of \<open>cref_uv850\<close> and \<open>gh500_uv850_mslp\<close> offer exactly the keys of their
  tables.
\<close>

lemma cref_uv850_error_names_keys:
  "cref_uv850_data_dir ''GRAPES'' =
     Inl (ValueError ''Unknown model, choose ShangHai, BeiJing, Grapes_meso of Grapes_3km.'') \<and>
   named_models (ValueError ''Unknown model, choose ShangHai, BeiJing, Grapes_meso of Grapes_3km.'') =
     keys cref_uv850_data_dirs"
  by code_simp

lemma gh500_uv850_mslp_error_names_keys:
  "gh500_uv850_mslp_data_dir ''SHANGHAI'' =
     Inl (ValueError ''Unknown model, choose ECMWF, GRAPES or NCEP.'') \<and>
   named_models (ValueError ''Unknown model, choose ECMWF, GRAPES or NCEP.'') =
     keys gh500_uv850_mslp_data_dirs"
  by code_simp

text \<open>
  Claim C3 says that the names offered by the error are the keys of the table of the analysis
  type. It fails for \<open>qpf_24h\<close>, whose message is the one of \<open>gh500_uv850_mslp\<close>: the
  request for \<open>GRAPES\<close> is refused with a message that offers \<open>ECMWF\<close>, \<open>GRAPES\<close> and
  \<open>NCEP\<close>, while the only key of the table is \<open>ECMWF\<close>.
\<close>

theorem qpf_24h_error_names_other_models:
  "qpf_24h_data_dir ''GRAPES'' = Inl (ValueError ''Unknown model, choose ECMWF, GRAPES or NCEP.'') \<and>
   named_models (ValueError ''Unknown model, choose ECMWF, GRAPES or NCEP.'') =
     [''ECMWF'', ''GRAPES'', ''NCEP''] \<and>
   keys qpf_24h_data_dirs = [''ECMWF'']"
  by code_simp

text \<open>
  Claim C8. The list resolved for a known model has an entry at every position the plotting
  function subscripts: three entries at least for \<open>cref_uv850\<close>, four for
  \<open>gh500_uv850_mslp\<close>, one for \<open>qpf_24h\<close>, so that no \<open>data_dir[i]\<close> raises
  \<open>IndexError\<close>. The same holds for every entry \<open>cref_uv850_compare\<close> iterates over.
\<close>

theorem resolved_positions_in_range:
  "(resolve_field_paths m a = Inr ps \<longrightarrow>
      (\<forall>i \<in> set (indexed_positions a). list_getitem ps i = Inr (ps ! i)) \<and>
      (a = Composite_reflectivity_and_wind \<longrightarrow> 3 \<le> length ps) \<and>
      (a = Synoptic_500hpa \<longrightarrow> 4 \<le> length ps) \<and>
      (a = Precipitation_24h \<longrightarrow> 1 \<le> length ps)) \<and>
   (\<forall>(k, qs) \<in> set cref_uv850_compare_data_dirs.
      \<forall>i \<in> {0, 1, 2}. list_getitem qs i = Inr (qs ! i))"
proof (intro conjI impI)
  assume "resolve_field_paths m a = Inr ps"
  then have mem: "(upper (strip m), ps) \<in> set (data_dirs a)" by (rule resolve_in_table)
  then have len: "length ps = length (indexed_positions a)"
    by (cases a) (auto simp: table_defs)
  then show "\<forall>i \<in> set (indexed_positions a). list_getitem ps i = Inr (ps ! i)"
    by (cases a) (auto simp: list_getitem_def)
  show "3 \<le> length ps" if "a = Composite_reflectivity_and_wind" using len that by simp
  show "4 \<le> length ps" if "a = Synoptic_500hpa" using len that by simp
  show "1 \<le> length ps" if "a = Precipitation_24h" using len that by simp
next
  show "\<forall>(k, qs) \<in> set cref_uv850_compare_data_dirs.
      \<forall>i \<in> {0, 1, 2}. list_getitem qs i = Inr (qs ! i)"
    by (simp add: cref_uv850_compare_data_dirs_def list_getitem_def)
qed

theorem resolved_positions_in_range_witness:
  "resolve_field_paths ''Grapes_3km'' Composite_reflectivity_and_wind =
     Inr [''GRAPES_3KM/RADAR_COMBINATION_REFLECTIVITY'', ''GRAPES_3KM/UGRD/850'',
          ''GRAPES_3KM/VGRD/850''] \<and>
   list_getitem [''GRAPES_3KM/RADAR_COMBINATION_REFLECTIVITY'', ''GRAPES_3KM/UGRD/850'',
          ''GRAPES_3KM/VGRD/850''] 2 = Inr ''GRAPES_3KM/VGRD/850'' \<and>
   3 \<le> length [''GRAPES_3KM/RADAR_COMBINATION_REFLECTIVITY'', ''GRAPES_3KM/UGRD/850'',
          ''GRAPES_3KM/VGRD/850'']"
proof -
  have r: "resolve_field_paths ''Grapes_3km'' Composite_reflectivity_and_wind =
     Inr [''GRAPES_3KM/RADAR_COMBINATION_REFLECTIVITY'', ''GRAPES_3KM/UGRD/850'',
          ''GRAPES_3KM/VGRD/850'']"
    by (simp add: table_defs lookup_defs dict_getitem_def str_defs)
  from resolved_positions_in_range [of "''Grapes_3km''" Composite_reflectivity_and_wind
      "[''GRAPES_3KM/RADAR_COMBINATION_REFLECTIVITY'', ''GRAPES_3KM/UGRD/850'',
          ''GRAPES_3KM/VGRD/850'']"] r
  show ?thesis by simp
qed

lemma single_root_cref_uv850:
  "list_all (single_root cref_uv850_data_dirs) cref_uv850_data_dirs"
  by code_simp

lemma single_root_gh500_uv850_mslp:
  "list_all (single_root gh500_uv850_mslp_data_dirs) gh500_uv850_mslp_data_dirs"
  by code_simp

lemma single_root_qpf_24h:
  "list_all (single_root qpf_24h_data_dirs) qpf_24h_data_dirs"
  by code_simp

lemma single_root_data_dirs: "list_all (single_root (data_dirs a)) (data_dirs a)"
  by (cases a)
    (simp_all only: data_dirs.simps single_root_cref_uv850 single_root_gh500_uv850_mslp
      single_root_qpf_24h)

text \<open>
  Claim C9. In every entry of every table, all paths begin with one root directory followed
  by a slash. The root begins with the model key, and no path of another model of the table
  has it as its first segment.
\<close>

theorem data_dirs_single_root:
  "(k, ps) \<in> set (data_dirs a) \<Longrightarrow>
     ps \<noteq> [] \<and> prefix k (root_segment (hd ps)) \<and>
     (\<forall>p \<in> set ps. prefix (root_segment (hd ps) @ ''/'') p) \<and>
     (\<forall>(k', ps') \<in> set (data_dirs a). k' \<noteq> k \<longrightarrow>
        (\<forall>p' \<in> set ps'. root_segment p' \<noteq> root_segment (hd ps)))"
proof -
  assume mem: "(k, ps) \<in> set (data_dirs a)"
  with single_root_data_dirs [of a] have "single_root (data_dirs a) (k, ps)"
    unfolding list_all_iff by blast
  then show ?thesis
    unfolding single_root_def list_all_iff by (simp add: case_prod_unfold) blast
qed

theorem data_dirs_single_root_witness:
  "(''NCEP'', [''NCEP_GFS/HGT/500'', ''NCEP_GFS/UGRD/850'', ''NCEP_GFS/VGRD/850'',
      ''NCEP_GFS/PRMSL'']) \<in> set (data_dirs Synoptic_500hpa) \<and>
   root_segment ''NCEP_GFS/HGT/500'' = ''NCEP_GFS'' \<and>
   list_all (prefix ''NCEP_GFS/'') [''NCEP_GFS/HGT/500'', ''NCEP_GFS/UGRD/850'',
      ''NCEP_GFS/VGRD/850'', ''NCEP_GFS/PRMSL''] \<and>
   root_segment ''ECMWF_LR/HGT/500'' \<noteq> ''NCEP_GFS''"
proof -
  have m: "(''NCEP'', [''NCEP_GFS/HGT/500'', ''NCEP_GFS/UGRD/850'', ''NCEP_GFS/VGRD/850'',
      ''NCEP_GFS/PRMSL'']) \<in> set (data_dirs Synoptic_500hpa)"
    by (simp add: table_defs)
  have r: "root_segment ''NCEP_GFS/HGT/500'' = ''NCEP_GFS''" by (simp add: root_segment_def)
  from data_dirs_single_root [OF m] r show ?thesis
    using m by (simp add: table_defs root_segment_def)
qed

end
